theory Spec2Isabelle
  imports Complex_Main
begin

section \<open>The LiveKit token server (server.py)\<close>

text \<open>
  A shallow embedding of the two token handlers of \<^verbatim>\<open>server.py\<close>,
  \<^verbatim>\<open>generate_token\<close> (POST /token) and \<^verbatim>\<open>getToken\<close> (GET /getToken).
  What the handlers receive from Flask, the process environment and the livekit library
  are arguments of the model; what the handlers do beyond returning (reading the
  environment, calling \<^verbatim>\<open>to_jwt\<close>, logging) is recorded, in program order, in a list
  of events returned beside the response.
\<close>

subsection \<open>Python values that come out of a JSON body\<close>

text \<open>
  A Python float: a finite value (every double is a rational number; \<^verbatim>\<open>-0.0\<close> is the
  rational 0), an infinity (\<open>True\<close> for the positive one) or NaN, all of which
  \<^verbatim>\<open>json.loads\<close> accepts.
\<close>

datatype pyfloat = FloatVal rat | FloatInf bool | FloatNaN

text \<open>
  The value of \<^verbatim>\<open>request.get_json()\<close>: \<^verbatim>\<open>None\<close>, a bool, an int, a float, a str, a list
  or a dict. A dict is kept as the list of its items; its keys are distinct.
\<close>

datatype json =
    JNull
  | JBool bool
  | JInt int
  | JFloat pyfloat
  | JStr string
  | JArray "json list"
  | JObject "(string \<times> json) list"

text \<open>Python truth value testing, the meaning of \<^verbatim>\<open>not x\<close> on these values.\<close>

fun float_truthy :: "pyfloat \<Rightarrow> bool" where
  "float_truthy (FloatVal q) = (q \<noteq> 0)"
| "float_truthy (FloatInf _) = True"
| "float_truthy FloatNaN = True"

fun truthy :: "json \<Rightarrow> bool" where
  "truthy JNull = False"
| "truthy (JBool b) = b"
| "truthy (JInt i) = (i \<noteq> 0)"
| "truthy (JFloat f) = float_truthy f"
| "truthy (JStr s) = (s \<noteq> [])"
| "truthy (JArray xs) = (xs \<noteq> [])"
| "truthy (JObject d) = (d \<noteq> [])"

text \<open>\<^verbatim>\<open>type(x).__name__\<close>, as it appears in the text of an AttributeError.\<close>

fun py_type_name :: "json \<Rightarrow> string" where
  "py_type_name JNull = ''NoneType''"
| "py_type_name (JBool _) = ''bool''"
| "py_type_name (JInt _) = ''int''"
| "py_type_name (JFloat _) = ''float''"
| "py_type_name (JStr _) = ''str''"
| "py_type_name (JArray _) = ''list''"
| "py_type_name (JObject _) = ''dict''"

text \<open>
  \<^verbatim>\<open>d.get(k)\<close> and \<^verbatim>\<open>d.get(k, default)\<close> on a dict: the one-argument form has the
  default \<^verbatim>\<open>None\<close>.
\<close>

definition dict_get :: "(string \<times> json) list \<Rightarrow> string \<Rightarrow> json \<Rightarrow> json" where
  "dict_get d k dflt = (case map_of d k of None \<Rightarrow> dflt | Some v \<Rightarrow> v)"

subsection \<open>Exceptions, environment, query string\<close>

text \<open>
  An exception caught by \<^verbatim>\<open>except Exception as e\<close>: its class name and \<^verbatim>\<open>str(e)\<close>.
\<close>

datatype py_exception = PyException (exc_class: string) (exc_str: string)

definition attribute_error :: "json \<Rightarrow> string \<Rightarrow> py_exception" where
  "attribute_error v attr =
     PyException ''AttributeError''
       ([CHR 0x27] @ py_type_name v @ [CHR 0x27] @ '' object has no attribute ''
          @ [CHR 0x27] @ attr @ [CHR 0x27])"

text \<open>\<^verbatim>\<open>os.environ\<close>, and \<^verbatim>\<open>os.getenv\<close> without and with a default.\<close>

type_synonym environ = "string \<rightharpoonup> string"

definition getenv :: "environ \<Rightarrow> string \<Rightarrow> string option" where
  "getenv env k = env k"

definition getenv_default :: "environ \<Rightarrow> string \<Rightarrow> string \<Rightarrow> string" where
  "getenv_default env k dflt = (case env k of None \<Rightarrow> dflt | Some v \<Rightarrow> v)"

text \<open>\<^verbatim>\<open>not s\<close> is false exactly for a str that is set and not empty.\<close>

fun str_truthy :: "string option \<Rightarrow> bool" where
  "str_truthy None = False"
| "str_truthy (Some s) = (s \<noteq> [])"

text \<open>
  \<^verbatim>\<open>request.args\<close>: the query parameters in the order of the URL; \<^verbatim>\<open>args.get(k, default)\<close>
  is the first value of \<open>k\<close>.
\<close>

type_synonym query_args = "(string \<times> string) list"

definition args_get :: "query_args \<Rightarrow> string \<Rightarrow> string \<Rightarrow> string" where
  "args_get args k dflt = (case map_of args k of None \<Rightarrow> dflt | Some v \<Rightarrow> v)"

subsection \<open>The token handed to the livekit library\<close>

text \<open>
  The keyword arguments of \<^verbatim>\<open>api.VideoGrants(...)\<close>: \<open>None\<close> is an argument the call
  does not pass.
\<close>

record video_grants =
  room_join :: "bool option"
  room :: "json option"
  can_publish :: "bool option"
  can_subscribe :: "bool option"
  can_publish_data :: "bool option"

text \<open>
  \<^verbatim>\<open>api.AccessToken(api_key, api_secret).with_identity(i).with_name(n).with_grants(g)\<close>:
  the values the builder chain receives.
\<close>

record access_token =
  at_api_key :: "string option"
  at_api_secret :: "string option"
  at_identity :: json
  at_name :: json
  at_grants :: video_grants

text \<open>
  The livekit library is not part of the repository: what building the token and
  \<^verbatim>\<open>token.to_jwt()\<close> do with these values, raise an exception or return the JWT, is an
  argument of the handlers.
\<close>

type_synonym signer = "access_token \<Rightarrow> py_exception + string"

subsection \<open>Responses and events\<close>

datatype body = JsonBody json | TextBody string

record response =
  status :: nat
  body :: body

text \<open>\<^verbatim>\<open>return jsonify(obj), code\<close>.\<close>

definition jsonify :: "json \<Rightarrow> nat \<Rightarrow> response" where
  "jsonify obj code = \<lparr>status = code, body = JsonBody obj\<rparr>"

text \<open>A view that returns a bare str: Flask answers with status 200 and the str as body.\<close>

definition text_response :: "string \<Rightarrow> response" where
  "text_response s = \<lparr>status = 200, body = TextBody s\<rparr>"

definition error_body :: "string \<Rightarrow> json" where
  "error_body msg = JObject [(''error'', JStr msg)]"

text \<open>
  What a handler does besides returning: an \<^verbatim>\<open>os.getenv\<close> of a variable, a call of
  \<^verbatim>\<open>to_jwt\<close> on a token, a \<^verbatim>\<open>logger.error\<close> line, and the \<^verbatim>\<open>logger.info\<close> line of
  \<^verbatim>\<open>generate_token\<close> with the participant name and the room name it interpolates.
\<close>

datatype event =
    GetEnv string
  | ToJwt access_token
  | LogError string
  | LogInfo json json

subsection \<open>POST /token\<close>

text \<open>
  The body of the \<^verbatim>\<open>try\<close> block of \<^verbatim>\<open>generate_token\<close>. Its first argument is the outcome
  of \<^verbatim>\<open>request.get_json()\<close>, the parsed body or the exception Flask raises. The result
  is the returned response, or the exception that leaves the block, with the events so far.
  \<^verbatim>\<open>data.get\<close> on a value that is not a dict raises AttributeError.
\<close>

definition generate_token_try ::
  "py_exception + json \<Rightarrow> environ \<Rightarrow> signer \<Rightarrow> (py_exception + response) \<times> event list" where
  "generate_token_try get_json env to_jwt =
    (case get_json of
       Inl e \<Rightarrow> (Inl e, [])
     | Inr data \<Rightarrow>
        if \<not> truthy data
        then (Inr (jsonify (error_body ''No JSON data provided'') 400), [])
        else
          (case data of
             JObject d \<Rightarrow>
               (let room_name = dict_get d ''roomName'' JNull;
                    participant_name = dict_get d ''participantName'' JNull;
                    participant_identity = dict_get d ''participantIdentity'' participant_name
                in
                  if \<not> truthy room_name \<or> \<not> truthy participant_name
                  then (Inr (jsonify (error_body ''roomName and participantName are required'') 400), [])
                  else
                    (let api_key = getenv env ''LIVEKIT_API_KEY'';
                         api_secret = getenv env ''LIVEKIT_API_SECRET'';
                         server_url = getenv_default env ''LIVEKIT_URL'' ''ws://localhost:7880'';
                         evs = [GetEnv ''LIVEKIT_API_KEY'', GetEnv ''LIVEKIT_API_SECRET'',
                                GetEnv ''LIVEKIT_URL'']
                     in
                       if \<not> str_truthy api_key \<or> \<not> str_truthy api_secret
                       then (Inr (jsonify (error_body ''Server configuration error'') 500),
                             evs @ [LogError ''Missing LIVEKIT_API_KEY or LIVEKIT_API_SECRET''])
                       else
                         (let token = \<lparr>at_api_key = api_key, at_api_secret = api_secret,
                                       at_identity = participant_identity,
                                       at_name = participant_name,
                                       at_grants = \<lparr>room_join = Some True,
                                                    room = Some room_name,
                                                    can_publish = Some True,
                                                    can_subscribe = Some True,
                                                    can_publish_data = Some True\<rparr>\<rparr>
                          in
                            (case to_jwt token of
                               Inl e \<Rightarrow> (Inl e, evs @ [ToJwt token])
                             | Inr jwt_token \<Rightarrow>
                                 (Inr (jsonify (JObject [(''serverUrl'', JStr server_url),
                                                         (''roomName'', room_name),
                                                         (''participantName'', participant_name),
                                                         (''participantToken'', JStr jwt_token)])
                                         200),
                                  evs @ [ToJwt token, LogInfo participant_name room_name])))))
           | _ \<Rightarrow> (Inl (attribute_error data ''get''), [])))"

text \<open>
  \<^verbatim>\<open>generate_token\<close>: the \<^verbatim>\<open>try\<close> block, and the \<^verbatim>\<open>except Exception\<close> clause that logs the
  exception text and answers 500.
\<close>

definition generate_token :: "py_exception + json \<Rightarrow> environ \<Rightarrow> signer \<Rightarrow> response \<times> event list" where
  "generate_token get_json env to_jwt =
    (case generate_token_try get_json env to_jwt of
       (Inr resp, evs) \<Rightarrow> (resp, evs)
     | (Inl e, evs) \<Rightarrow>
         (jsonify (error_body ''Internal server error'') 500,
          evs @ [LogError (''Error generating token: '' @ exc_str e)]))"

subsection \<open>GET /getToken\<close>

text \<open>The \<^verbatim>\<open>try\<close> block of \<^verbatim>\<open>getToken\<close>, after the two names are read from the query.\<close>

definition getToken_try ::
  "string \<Rightarrow> string \<Rightarrow> environ \<Rightarrow> signer \<Rightarrow> (py_exception + response) \<times> event list" where
  "getToken_try room_name participant_name env to_jwt =
    (let api_key = getenv env ''LIVEKIT_API_KEY'';
         api_secret = getenv env ''LIVEKIT_API_SECRET'';
         evs = [GetEnv ''LIVEKIT_API_KEY'', GetEnv ''LIVEKIT_API_SECRET'']
     in
       if \<not> str_truthy api_key \<or> \<not> str_truthy api_secret
       then (Inr (jsonify (error_body ''Server configuration error'') 500), evs)
       else
         (let token = \<lparr>at_api_key = api_key, at_api_secret = api_secret,
                       at_identity = JStr participant_name,
                       at_name = JStr participant_name,
                       at_grants = \<lparr>room_join = Some True,
                                    room = Some (JStr room_name),
                                    can_publish = None,
                                    can_subscribe = None,
                                    can_publish_data = None\<rparr>\<rparr>
          in
            (case to_jwt token of
               Inl e \<Rightarrow> (Inl e, evs @ [ToJwt token])
             | Inr jwt \<Rightarrow> (Inr (text_response jwt), evs @ [ToJwt token]))))"

definition getToken :: "query_args \<Rightarrow> environ \<Rightarrow> signer \<Rightarrow> response \<times> event list" where
  "getToken args env to_jwt =
    (let room_name = args_get args ''room'' ''my-room'';
         participant_name = args_get args ''participant'' ''anonymous''
     in
       (case getToken_try room_name participant_name env to_jwt of
          (Inr resp, evs) \<Rightarrow> (resp, evs)
        | (Inl e, evs) \<Rightarrow>
            (jsonify (error_body ''Internal server error'') 500,
             evs @ [LogError (''Error in legacy token endpoint: '' @ exc_str e)])))"

subsection \<open>Concrete surroundings used in the examples\<close>

definition env_ok :: environ where
  "env_ok = [''LIVEKIT_API_KEY'' \<mapsto> ''devkey'', ''LIVEKIT_API_SECRET'' \<mapsto> ''secret'']"

definition env_no_secret :: environ where
  "env_no_secret = [''LIVEKIT_API_KEY'' \<mapsto> ''devkey'']"

text \<open>A request body with the two required fields and no \<^verbatim>\<open>participantIdentity\<close>.\<close>

definition body_ok :: "(string \<times> json) list" where
  "body_ok = [(''roomName'', JStr ''test-room''), (''participantName'', JStr ''bob'')]"

text \<open>A signer that always returns a three-segment string, and one that always raises.\<close>

definition sign_ok :: signer where
  "sign_ok tok = Inr ''hdr.claims.sig''"


subsection \<open>What the livekit library and Flask do with the handlers' values\<close>

text \<open>
  The \<^verbatim>\<open>VideoGrants\<close> dataclass of livekit-api (library code, not code of this repository):
  a keyword argument the caller does not pass takes the field's default, which is
  \<^verbatim>\<open>None\<close> for \<^verbatim>\<open>room_join\<close>, the empty str for \<^verbatim>\<open>room\<close>, and \<^verbatim>\<open>True\<close> for
  \<^verbatim>\<open>can_publish\<close>, \<^verbatim>\<open>can_subscribe\<close> and \<^verbatim>\<open>can_publish_data\<close>. These fields are the
  grants the signed token carries.
\<close>

record grants_fields =
  f_room_join :: "bool option"
  f_room :: json
  f_can_publish :: bool
  f_can_subscribe :: bool
  f_can_publish_data :: bool

definition VideoGrants :: "video_grants \<Rightarrow> grants_fields" where
  "VideoGrants kw =
     \<lparr>f_room_join = room_join kw,
      f_room = (case room kw of None \<Rightarrow> JStr [] | Some r \<Rightarrow> r),
      f_can_publish = (case can_publish kw of None \<Rightarrow> True | Some b \<Rightarrow> b),
      f_can_subscribe = (case can_subscribe kw of None \<Rightarrow> True | Some b \<Rightarrow> b),
      f_can_publish_data = (case can_publish_data kw of None \<Rightarrow> True | Some b \<Rightarrow> b)\<rparr>"

text \<open>
  The check at the head of livekit-api's \<^verbatim>\<open>to_jwt\<close> (library code as well):
  \<^verbatim>\<open>if video.room_join and (not self.identity or not video.room): raise ValueError(...)\<close>.
\<close>

definition join_check_fails :: "access_token \<Rightarrow> bool" where
  "join_check_fails tok =
     (let video = VideoGrants (at_grants tok)
      in f_room_join video = Some True
         \<and> (\<not> truthy (at_identity tok) \<or> \<not> truthy (f_room video)))"

text \<open>A signer with that check: it raises where the check fails and returns a JWT elsewhere.\<close>

definition sign_checked :: signer where
  "sign_checked tok =
     (if join_check_fails tok
      then Inl (PyException ''ValueError'' ''identity and room must be set when joining a room'')
      else Inr ''hdr.claims.sig'')"

text \<open>
  The exception with which Flask's \<^verbatim>\<open>request.get_json()\<close> leaves a request with the
  content type \<^verbatim>\<open>application/json\<close> and an empty body.
\<close>

definition empty_body_exception :: py_exception where
  "empty_body_exception =
     PyException ''BadRequest''
       ''400 Bad Request: The browser (or proxy) sent a request that this server could not understand.''"

section \<open>Properties\<close>

subsection \<open>Helper facts\<close>

lemma generate_token_falsy:
  "\<not> truthy data \<Longrightarrow>
     generate_token (Inr data) env to_jwt =
       (jsonify (error_body ''No JSON data provided'') 400, [])"
  by (simp add: generate_token_def generate_token_try_def)

text \<open>Where \<^verbatim>\<open>generate_token\<close> calls \<^verbatim>\<open>to_jwt\<close>, and on which token.\<close>

lemma generate_token_tojwt:
  assumes "ToJwt tok \<in> set (snd (generate_token gj env to_jwt))"
  shows "\<exists>d. gj = Inr (JObject d) \<and> d \<noteq> []
           \<and> truthy (dict_get d ''roomName'' JNull)
           \<and> truthy (dict_get d ''participantName'' JNull)
           \<and> str_truthy (env ''LIVEKIT_API_KEY'')
           \<and> str_truthy (env ''LIVEKIT_API_SECRET'')
           \<and> tok = \<lparr>at_api_key = env ''LIVEKIT_API_KEY'',
                     at_api_secret = env ''LIVEKIT_API_SECRET'',
                     at_identity = dict_get d ''participantIdentity''
                                     (dict_get d ''participantName'' JNull),
                     at_name = dict_get d ''participantName'' JNull,
                     at_grants = \<lparr>room_join = Some True,
                                  room = Some (dict_get d ''roomName'' JNull),
                                  can_publish = Some True,
                                  can_subscribe = Some True,
                                  can_publish_data = Some True\<rparr>\<rparr>"
  using assms
  by (auto simp: generate_token_def generate_token_try_def Let_def getenv_def
           split: sum.splits json.splits if_splits prod.splits)

text \<open>The whole run of \<^verbatim>\<open>generate_token\<close> once validation and configuration pass.\<close>

lemma generate_token_valid:
  assumes "truthy (dict_get d ''roomName'' JNull)"
      and "truthy (dict_get d ''participantName'' JNull)"
      and "str_truthy (env ''LIVEKIT_API_KEY'')"
      and "str_truthy (env ''LIVEKIT_API_SECRET'')"
      and "d \<noteq> []"
  shows "generate_token (Inr (JObject d)) env to_jwt =
     (let tok = \<lparr>at_api_key = env ''LIVEKIT_API_KEY'',
                 at_api_secret = env ''LIVEKIT_API_SECRET'',
                 at_identity = dict_get d ''participantIdentity''
                                 (dict_get d ''participantName'' JNull),
                 at_name = dict_get d ''participantName'' JNull,
                 at_grants = \<lparr>room_join = Some True,
                              room = Some (dict_get d ''roomName'' JNull),
                              can_publish = Some True,
                              can_subscribe = Some True,
                              can_publish_data = Some True\<rparr>\<rparr>;
          evs = [GetEnv ''LIVEKIT_API_KEY'', GetEnv ''LIVEKIT_API_SECRET'',
                 GetEnv ''LIVEKIT_URL'', ToJwt tok]
      in case to_jwt tok of
           Inl e \<Rightarrow> (jsonify (error_body ''Internal server error'') 500,
                      evs @ [LogError (''Error generating token: '' @ exc_str e)])
         | Inr jwt \<Rightarrow>
             (jsonify (JObject [(''serverUrl'',
                                   JStr (getenv_default env ''LIVEKIT_URL'' ''ws://localhost:7880'')),
                                (''roomName'', dict_get d ''roomName'' JNull),
                                (''participantName'', dict_get d ''participantName'' JNull),
                                (''participantToken'', JStr jwt)]) 200,
              evs @ [LogInfo (dict_get d ''participantName'' JNull)
                             (dict_get d ''roomName'' JNull)]))"
  using assms
  by (auto simp: generate_token_def generate_token_try_def Let_def getenv_def
           split: sum.splits)

text \<open>Status 200 leaves \<^verbatim>\<open>generate_token\<close> only at its last \<^verbatim>\<open>return\<close>.\<close>

lemma generate_token_200:
  assumes "status (fst (generate_token gj env to_jwt)) = 200"
  shows "\<exists>d jwt. gj = Inr (JObject d)
           \<and> truthy (dict_get d ''roomName'' JNull)
           \<and> truthy (dict_get d ''participantName'' JNull)
           \<and> str_truthy (env ''LIVEKIT_API_KEY'')
           \<and> str_truthy (env ''LIVEKIT_API_SECRET'')
           \<and> fst (generate_token gj env to_jwt) =
               jsonify (JObject [(''serverUrl'',
                                    JStr (getenv_default env ''LIVEKIT_URL'' ''ws://localhost:7880'')),
                                 (''roomName'', dict_get d ''roomName'' JNull),
                                 (''participantName'', dict_get d ''participantName'' JNull),
                                 (''participantToken'', JStr jwt)]) 200"
  using assms
  by (auto simp: generate_token_def generate_token_try_def Let_def getenv_def jsonify_def
           split: sum.splits json.splits if_splits prod.splits)

text \<open>A dict that is not empty and lacks a truthy room name or participant name.\<close>

lemma generate_token_invalid:
  assumes "d \<noteq> []"
      and "\<not> truthy (dict_get d ''roomName'' JNull) \<or> \<not> truthy (dict_get d ''participantName'' JNull)"
  shows "generate_token (Inr (JObject d)) env to_jwt =
           (jsonify (error_body ''roomName and participantName are required'') 400, [])"
  using assms
  by (auto simp: generate_token_def generate_token_try_def Let_def)

text \<open>The same three facts for \<^verbatim>\<open>getToken\<close>.\<close>

lemma getToken_tojwt:
  assumes "ToJwt tok \<in> set (snd (getToken args env to_jwt))"
  shows "str_truthy (env ''LIVEKIT_API_KEY'') \<and> str_truthy (env ''LIVEKIT_API_SECRET'')
         \<and> tok = \<lparr>at_api_key = env ''LIVEKIT_API_KEY'',
                   at_api_secret = env ''LIVEKIT_API_SECRET'',
                   at_identity = JStr (args_get args ''participant'' ''anonymous''),
                   at_name = JStr (args_get args ''participant'' ''anonymous''),
                   at_grants = \<lparr>room_join = Some True,
                                room = Some (JStr (args_get args ''room'' ''my-room'')),
                                can_publish = None,
                                can_subscribe = None,
                                can_publish_data = None\<rparr>\<rparr>"
  using assms
  by (auto simp: getToken_def getToken_try_def Let_def getenv_def
           split: sum.splits if_splits prod.splits)

lemma getToken_valid:
  assumes "str_truthy (env ''LIVEKIT_API_KEY'')"
      and "str_truthy (env ''LIVEKIT_API_SECRET'')"
  shows "getToken args env to_jwt =
     (let tok = \<lparr>at_api_key = env ''LIVEKIT_API_KEY'',
                 at_api_secret = env ''LIVEKIT_API_SECRET'',
                 at_identity = JStr (args_get args ''participant'' ''anonymous''),
                 at_name = JStr (args_get args ''participant'' ''anonymous''),
                 at_grants = \<lparr>room_join = Some True,
                              room = Some (JStr (args_get args ''room'' ''my-room'')),
                              can_publish = None,
                              can_subscribe = None,
                              can_publish_data = None\<rparr>\<rparr>;
          evs = [GetEnv ''LIVEKIT_API_KEY'', GetEnv ''LIVEKIT_API_SECRET'', ToJwt tok]
      in case to_jwt tok of
           Inl e \<Rightarrow> (jsonify (error_body ''Internal server error'') 500,
                      evs @ [LogError (''Error in legacy token endpoint: '' @ exc_str e)])
         | Inr jwt \<Rightarrow> (text_response jwt, evs))"
  using assms
  by (auto simp: getToken_def getToken_try_def Let_def getenv_def split: sum.splits)

lemma getToken_200:
  assumes "status (fst (getToken args env to_jwt)) = 200"
  shows "str_truthy (env ''LIVEKIT_API_KEY'') \<and> str_truthy (env ''LIVEKIT_API_SECRET'')"
  using assms
  by (auto simp: getToken_def getToken_try_def Let_def getenv_def jsonify_def
           split: sum.splits if_splits prod.splits)

lemma getToken_no_credentials:
  assumes "\<not> str_truthy (env ''LIVEKIT_API_KEY'') \<or> \<not> str_truthy (env ''LIVEKIT_API_SECRET'')"
  shows "getToken args env to_jwt =
           (jsonify (error_body ''Server configuration error'') 500,
            [GetEnv ''LIVEKIT_API_KEY'', GetEnv ''LIVEKIT_API_SECRET''])"
  using assms
  by (auto simp: getToken_def getToken_try_def Let_def getenv_def)

lemma generate_token_no_credentials:
  assumes "truthy (dict_get d ''roomName'' JNull)"
      and "truthy (dict_get d ''participantName'' JNull)"
      and "\<not> str_truthy (env ''LIVEKIT_API_KEY'') \<or> \<not> str_truthy (env ''LIVEKIT_API_SECRET'')"
      and "d \<noteq> []"
  shows "generate_token (Inr (JObject d)) env to_jwt =
           (jsonify (error_body ''Server configuration error'') 500,
            [GetEnv ''LIVEKIT_API_KEY'', GetEnv ''LIVEKIT_API_SECRET'', GetEnv ''LIVEKIT_URL'',
             LogError ''Missing LIVEKIT_API_KEY or LIVEKIT_API_SECRET''])"
  using assms
  by (auto simp: generate_token_def generate_token_try_def Let_def getenv_def)

text \<open>The error responses are pairwise different.\<close>

lemma jsonify_error_eq:
  "jsonify (error_body m) c = jsonify (error_body m') c' \<longleftrightarrow> m = m' \<and> c = c'"
  by (auto simp: jsonify_def error_body_def)

lemma body_ok_get:
  "dict_get body_ok ''roomName'' JNull = JStr ''test-room''"
  "dict_get body_ok ''participantName'' JNull = JStr ''bob''"
  "dict_get body_ok ''participantIdentity'' v = v"
  "map_of body_ok ''roomName'' = Some (JStr ''test-room'')"
  "map_of body_ok ''participantName'' = Some (JStr ''bob'')"
  "map_of body_ok ''participantIdentity'' = None"
  "body_ok \<noteq> []"
  by (simp_all add: body_ok_def dict_get_def)

lemma env_ok_get:
  "env_ok ''LIVEKIT_API_KEY'' = Some ''devkey''"
  "env_ok ''LIVEKIT_API_SECRET'' = Some ''secret''"
  "env_ok ''LIVEKIT_URL'' = None"
  by (simp_all add: env_ok_def)

lemma env_no_secret_get:
  "env_no_secret ''LIVEKIT_API_KEY'' = Some ''devkey''"
  "env_no_secret ''LIVEKIT_API_SECRET'' = None"
  by (simp_all add: env_no_secret_def)

text \<open>A truthy \<^verbatim>\<open>d.get(k)\<close> is the value stored under \<open>k\<close>.\<close>

lemma truthy_dict_get:
  "truthy (dict_get d k JNull) \<Longrightarrow> map_of d k = Some (dict_get d k JNull)"
  by (cases "map_of d k") (simp_all add: dict_get_def)

text \<open>With status 200 the token in the response is what \<^verbatim>\<open>to_jwt\<close> returned.\<close>

lemma generate_token_200_signed:
  assumes "status (fst (generate_token gj env to_jwt)) = 200"
  shows "\<exists>tok jwt. ToJwt tok \<in> set (snd (generate_token gj env to_jwt)) \<and> to_jwt tok = Inr jwt
           \<and> (\<exists>x y z. body (fst (generate_token gj env to_jwt)) =
                 JsonBody (JObject [x, y, z, (''participantToken'', JStr jwt)]))"
  using assms
  by (auto simp: generate_token_def generate_token_try_def Let_def getenv_def jsonify_def
           split: sum.splits json.splits if_splits prod.splits)

text \<open>Four complete runs: each handler with a signer that returns and with one that raises.\<close>

lemma post_run_ok:
  "generate_token (Inr (JObject body_ok)) env_ok sign_ok =
    (jsonify (JObject [(''serverUrl'', JStr ''ws://localhost:7880''),
                       (''roomName'', JStr ''test-room''),
                       (''participantName'', JStr ''bob''),
                       (''participantToken'', JStr ''hdr.claims.sig'')]) 200,
     [GetEnv ''LIVEKIT_API_KEY'', GetEnv ''LIVEKIT_API_SECRET'', GetEnv ''LIVEKIT_URL'',
      ToJwt \<lparr>at_api_key = Some ''devkey'', at_api_secret = Some ''secret'',
             at_identity = JStr ''bob'', at_name = JStr ''bob'',
             at_grants = \<lparr>room_join = Some True, room = Some (JStr ''test-room''),
                          can_publish = Some True, can_subscribe = Some True,
                          can_publish_data = Some True\<rparr>\<rparr>,
      LogInfo (JStr ''bob'') (JStr ''test-room'')])"
  by (simp add: generate_token_valid body_ok_get env_ok_get sign_ok_def getenv_default_def Let_def)


lemma legacy_run_ok:
  "getToken [] env_ok sign_ok =
    (\<lparr>status = 200, body = TextBody ''hdr.claims.sig''\<rparr>,
     [GetEnv ''LIVEKIT_API_KEY'', GetEnv ''LIVEKIT_API_SECRET'',
      ToJwt \<lparr>at_api_key = Some ''devkey'', at_api_secret = Some ''secret'',
             at_identity = JStr ''anonymous'', at_name = JStr ''anonymous'',
             at_grants = \<lparr>room_join = Some True, room = Some (JStr ''my-room''),
                          can_publish = None, can_subscribe = None,
                          can_publish_data = None\<rparr>\<rparr>])"
  by (simp add: getToken_valid env_ok_get sign_ok_def args_get_def text_response_def Let_def)


text \<open>With status 200 the body of \<^verbatim>\<open>getToken\<close> is what \<^verbatim>\<open>to_jwt\<close> returned on its token.\<close>

lemma getToken_200_signed:
  assumes "status (fst (getToken args env to_jwt)) = 200"
  shows "\<exists>tok jwt. ToJwt tok \<in> set (snd (getToken args env to_jwt)) \<and> to_jwt tok = Inr jwt"
  using assms
  by (auto simp: getToken_def getToken_try_def Let_def getenv_def jsonify_def
           split: sum.splits if_splits prod.splits)

text \<open>Four runs with the signer that makes the library's check.\<close>

lemma post_run_five:
  "generate_token (Inr (JObject [(''roomName'', JInt 5), (''participantName'', JStr ''bob'')]))
      env_ok sign_checked =
    (jsonify (JObject [(''serverUrl'', JStr ''ws://localhost:7880''),
                       (''roomName'', JInt 5),
                       (''participantName'', JStr ''bob''),
                       (''participantToken'', JStr ''hdr.claims.sig'')]) 200,
     [GetEnv ''LIVEKIT_API_KEY'', GetEnv ''LIVEKIT_API_SECRET'', GetEnv ''LIVEKIT_URL'',
      ToJwt \<lparr>at_api_key = Some ''devkey'', at_api_secret = Some ''secret'',
             at_identity = JStr ''bob'', at_name = JStr ''bob'',
             at_grants = \<lparr>room_join = Some True, room = Some (JInt 5),
                          can_publish = Some True, can_subscribe = Some True,
                          can_publish_data = Some True\<rparr>\<rparr>,
      LogInfo (JStr ''bob'') (JInt 5)])"
  by (simp add: generate_token_valid dict_get_def env_ok_get sign_checked_def
        join_check_fails_def VideoGrants_def getenv_default_def Let_def)

lemma legacy_run_empty:
  "getToken [(''room'', ''''), (''participant'', '''')] env_ok sign_checked =
    (jsonify (error_body ''Internal server error'') 500,
     [GetEnv ''LIVEKIT_API_KEY'', GetEnv ''LIVEKIT_API_SECRET'',
      ToJwt \<lparr>at_api_key = Some ''devkey'', at_api_secret = Some ''secret'',
             at_identity = JStr '''', at_name = JStr '''',
             at_grants = \<lparr>room_join = Some True, room = Some (JStr ''''),
                          can_publish = None, can_subscribe = None,
                          can_publish_data = None\<rparr>\<rparr>,
      LogError ''Error in legacy token endpoint: identity and room must be set when joining a room''])"
  by (simp add: getToken_valid env_ok_get sign_checked_def args_get_def
        join_check_fails_def VideoGrants_def Let_def)

lemma legacy_run_checked:
  "getToken [] env_ok sign_checked =
    (\<lparr>status = 200, body = TextBody ''hdr.claims.sig''\<rparr>,
     [GetEnv ''LIVEKIT_API_KEY'', GetEnv ''LIVEKIT_API_SECRET'',
      ToJwt \<lparr>at_api_key = Some ''devkey'', at_api_secret = Some ''secret'',
             at_identity = JStr ''anonymous'', at_name = JStr ''anonymous'',
             at_grants = \<lparr>room_join = Some True, room = Some (JStr ''my-room''),
                          can_publish = None, can_subscribe = None,
                          can_publish_data = None\<rparr>\<rparr>])"
  by (simp add: getToken_valid env_ok_get sign_checked_def args_get_def text_response_def
        join_check_fails_def VideoGrants_def Let_def)

lemma post_run_checked:
  "generate_token (Inr (JObject body_ok)) env_ok sign_checked =
    (jsonify (JObject [(''serverUrl'', JStr ''ws://localhost:7880''),
                       (''roomName'', JStr ''test-room''),
                       (''participantName'', JStr ''bob''),
                       (''participantToken'', JStr ''hdr.claims.sig'')]) 200,
     [GetEnv ''LIVEKIT_API_KEY'', GetEnv ''LIVEKIT_API_SECRET'', GetEnv ''LIVEKIT_URL'',
      ToJwt \<lparr>at_api_key = Some ''devkey'', at_api_secret = Some ''secret'',
             at_identity = JStr ''bob'', at_name = JStr ''bob'',
             at_grants = \<lparr>room_join = Some True, room = Some (JStr ''test-room''),
                          can_publish = Some True, can_subscribe = Some True,
                          can_publish_data = Some True\<rparr>\<rparr>,
      LogInfo (JStr ''bob'') (JStr ''test-room'')])"
  by (simp add: generate_token_valid body_ok_get env_ok_get sign_checked_def
        join_check_fails_def VideoGrants_def getenv_default_def Let_def)

subsection \<open>Missing and falsy bodies\<close>

text \<open>
  C7 does not hold of the handler. For a POST /token request with a missing or empty body
  \<^verbatim>\<open>request.get_json()\<close> does not return \<^verbatim>\<open>None\<close>, it raises; the call is inside the
  \<^verbatim>\<open>try\<close> block, so the \<^verbatim>\<open>except Exception\<close> clause answers 500 with
  \<^verbatim>\<open>{"error": "Internal server error"}\<close> and the check \<^verbatim>\<open>if not data\<close>, with its answer
  400 and \<^verbatim>\<open>{"error": "No JSON data provided"}\<close>, is never reached.
\<close>

theorem get_json_exception_500:
  "generate_token (Inl e) env to_jwt =
     (\<lparr>status = 500, body = JsonBody (JObject [(''error'', JStr ''Internal server error'')])\<rparr>,
      [LogError (''Error generating token: '' @ exc_str e)])
   \<and> fst (generate_token (Inl e) env to_jwt) \<noteq>
       \<lparr>status = 400, body = JsonBody (JObject [(''error'', JStr ''No JSON data provided'')])\<rparr>"
  by (simp add: generate_token_def generate_token_try_def jsonify_def error_body_def)

theorem get_json_exception_500_witness:
  "generate_token (Inl empty_body_exception) env_ok sign_checked =
     (\<lparr>status = 500, body = JsonBody (JObject [(''error'', JStr ''Internal server error'')])\<rparr>,
      [LogError (''Error generating token: '' @ exc_str empty_body_exception)])
   \<and> fst (generate_token (Inl empty_body_exception) env_ok sign_checked) \<noteq>
       \<lparr>status = 400, body = JsonBody (JObject [(''error'', JStr ''No JSON data provided'')])\<rparr>"
  by (rule get_json_exception_500)


text \<open>
  C10. A POST /token request whose body parses to a falsy value, in particular the empty
  object or null, is answered with status 400 and \<^verbatim>\<open>{"error": "No JSON data provided"}\<close>,
  and not with the message about the missing fields.
\<close>

theorem falsy_body_no_json_data:
  assumes "data = JObject [] \<or> data = JNull \<or> \<not> truthy data"
  shows "generate_token (Inr data) env to_jwt =
           (jsonify (error_body ''No JSON data provided'') 400, [])
         \<and> fst (generate_token (Inr data) env to_jwt) \<noteq>
             jsonify (error_body ''roomName and participantName are required'') 400"
proof -
  from assms have "\<not> truthy data" by auto
  then have "generate_token (Inr data) env to_jwt =
               (jsonify (error_body ''No JSON data provided'') 400, [])"
    by (rule generate_token_falsy)
  then show ?thesis by (simp add: jsonify_error_eq)
qed

theorem falsy_body_no_json_data_witness:
  "generate_token (Inr (JObject [])) env_ok sign_ok =
     (jsonify (error_body ''No JSON data provided'') 400, [])
   \<and> fst (generate_token (Inr (JObject [])) env_ok sign_ok) \<noteq>
       jsonify (error_body ''roomName and participantName are required'') 400"
  by (rule falsy_body_no_json_data) simp

subsection \<open>When a token is signed\<close>

text \<open>
  C1, as stated, fails. \<^verbatim>\<open>getToken\<close> does not check its two names, so
  \<^verbatim>\<open>GET /getToken?room=&participant=\<close> reaches the call of \<^verbatim>\<open>to_jwt\<close> with an empty room
  name and an empty participant name; and \<^verbatim>\<open>generate_token\<close> tests the truth value of the
  two fields, not their type, so a body with \<^verbatim>\<open>"roomName": 5\<close> is signed and answered
  with 200.
\<close>

theorem signing_call_with_empty_or_non_string_names:
  "ToJwt \<lparr>at_api_key = Some ''devkey'', at_api_secret = Some ''secret'',
          at_identity = JStr '''', at_name = JStr '''',
          at_grants = \<lparr>room_join = Some True, room = Some (JStr ''''),
                       can_publish = None, can_subscribe = None, can_publish_data = None\<rparr>\<rparr>
     \<in> set (snd (getToken [(''room'', ''''), (''participant'', '''')] env_ok sign_checked))
   \<and> ToJwt \<lparr>at_api_key = Some ''devkey'', at_api_secret = Some ''secret'',
            at_identity = JStr ''bob'', at_name = JStr ''bob'',
            at_grants = \<lparr>room_join = Some True, room = Some (JInt 5),
                         can_publish = Some True, can_subscribe = Some True,
                         can_publish_data = Some True\<rparr>\<rparr>
     \<in> set (snd (generate_token
          (Inr (JObject [(''roomName'', JInt 5), (''participantName'', JStr ''bob'')]))
          env_ok sign_checked))
   \<and> fst (generate_token
          (Inr (JObject [(''roomName'', JInt 5), (''participantName'', JStr ''bob'')]))
          env_ok sign_checked) =
       \<lparr>status = 200,
        body = JsonBody (JObject [(''serverUrl'', JStr ''ws://localhost:7880''),
                                  (''roomName'', JInt 5),
                                  (''participantName'', JStr ''bob''),
                                  (''participantToken'', JStr ''hdr.claims.sig'')])\<rparr>"
  by (simp add: legacy_run_empty post_run_five jsonify_def)

text \<open>
  C1, amended. \<^verbatim>\<open>generate_token\<close> calls \<^verbatim>\<open>to_jwt\<close>, or answers 200, only when the body is a
  dict whose \<^verbatim>\<open>roomName\<close> and \<^verbatim>\<open>participantName\<close> are truthy (present, not null and not
  the empty string) and \<^verbatim>\<open>LIVEKIT_API_KEY\<close> and \<^verbatim>\<open>LIVEKIT_API_SECRET\<close> are both set and
  not empty, and the token it hands to \<^verbatim>\<open>to_jwt\<close> has that truthy name, that truthy room
  and those two credentials. \<^verbatim>\<open>getToken\<close> calls \<^verbatim>\<open>to_jwt\<close>, or answers 200, only when both
  variables are set and not empty; its token has those credentials and names that are
  strings, the defaults \<^verbatim>\<open>my-room\<close> and \<^verbatim>\<open>anonymous\<close> when the parameter is omitted; and
  with a \<^verbatim>\<open>to_jwt\<close> that makes the library's check of identity and room, \<^verbatim>\<open>getToken\<close>
  answers 200 only when both names are not empty.
\<close>

theorem token_needs_names_and_credentials:
  "(ToJwt tok \<in> set (snd (generate_token gj env to_jwt))
      \<or> status (fst (generate_token gj env to_jwt)) = 200 \<longrightarrow>
    (\<exists>d. gj = Inr (JObject d)
        \<and> truthy (dict_get d ''roomName'' JNull)
        \<and> truthy (dict_get d ''participantName'' JNull)
        \<and> dict_get d ''roomName'' JNull \<noteq> JStr []
        \<and> dict_get d ''participantName'' JNull \<noteq> JStr [])
    \<and> (\<exists>k s. env ''LIVEKIT_API_KEY'' = Some k \<and> k \<noteq> []
            \<and> env ''LIVEKIT_API_SECRET'' = Some s \<and> s \<noteq> []))
   \<and> (ToJwt tok \<in> set (snd (generate_token gj env to_jwt)) \<longrightarrow>
        truthy (at_name tok)
        \<and> (\<exists>rn. room (at_grants tok) = Some rn \<and> truthy rn)
        \<and> at_api_key tok = env ''LIVEKIT_API_KEY''
        \<and> at_api_secret tok = env ''LIVEKIT_API_SECRET'')
   \<and> (ToJwt tok' \<in> set (snd (getToken args env to_jwt))
        \<or> status (fst (getToken args env to_jwt)) = 200 \<longrightarrow>
      (\<exists>k s. env ''LIVEKIT_API_KEY'' = Some k \<and> k \<noteq> []
            \<and> env ''LIVEKIT_API_SECRET'' = Some s \<and> s \<noteq> []))
   \<and> (ToJwt tok' \<in> set (snd (getToken args env to_jwt)) \<longrightarrow>
        at_api_key tok' = env ''LIVEKIT_API_KEY''
        \<and> at_api_secret tok' = env ''LIVEKIT_API_SECRET''
        \<and> (\<exists>r p. room (at_grants tok') = Some (JStr r)
              \<and> at_identity tok' = JStr p \<and> at_name tok' = JStr p
              \<and> (map_of args ''room'' = None \<longrightarrow> r = ''my-room'')
              \<and> (map_of args ''participant'' = None \<longrightarrow> p = ''anonymous'')))
   \<and> ((\<forall>t. join_check_fails t \<longrightarrow> isl (to_jwt t))
        \<and> status (fst (getToken args env to_jwt)) = 200 \<longrightarrow>
        args_get args ''room'' ''my-room'' \<noteq> []
        \<and> args_get args ''participant'' ''anonymous'' \<noteq> [])"
proof -
  have cred: "\<exists>k s. e ''LIVEKIT_API_KEY'' = Some k \<and> k \<noteq> [] \<and> e ''LIVEKIT_API_SECRET'' = Some s \<and> s \<noteq> []"
    if "str_truthy (e ''LIVEKIT_API_KEY'')" "str_truthy (e ''LIVEKIT_API_SECRET'')"
    for e :: environ
    using that by (cases "e ''LIVEKIT_API_KEY''"; cases "e ''LIVEKIT_API_SECRET''") auto
  have post: "(\<exists>d. gj = Inr (JObject d)
        \<and> truthy (dict_get d ''roomName'' JNull)
        \<and> truthy (dict_get d ''participantName'' JNull)
        \<and> dict_get d ''roomName'' JNull \<noteq> JStr []
        \<and> dict_get d ''participantName'' JNull \<noteq> JStr [])
      \<and> str_truthy (env ''LIVEKIT_API_KEY'') \<and> str_truthy (env ''LIVEKIT_API_SECRET'')"
    if "ToJwt tok \<in> set (snd (generate_token gj env to_jwt))
          \<or> status (fst (generate_token gj env to_jwt)) = 200"
    using that
  proof
    assume "ToJwt tok \<in> set (snd (generate_token gj env to_jwt))"
    from generate_token_tojwt [OF this] show ?thesis by auto
  next
    assume "status (fst (generate_token gj env to_jwt)) = 200"
    from generate_token_200 [OF this] show ?thesis by auto
  qed
  have post_tok: "truthy (at_name tok)
        \<and> (\<exists>rn. room (at_grants tok) = Some rn \<and> truthy rn)
        \<and> at_api_key tok = env ''LIVEKIT_API_KEY''
        \<and> at_api_secret tok = env ''LIVEKIT_API_SECRET''"
    if "ToJwt tok \<in> set (snd (generate_token gj env to_jwt))"
    using generate_token_tojwt [OF that] by auto
  have legacy: "str_truthy (env ''LIVEKIT_API_KEY'') \<and> str_truthy (env ''LIVEKIT_API_SECRET'')"
    if "ToJwt tok' \<in> set (snd (getToken args env to_jwt))
          \<or> status (fst (getToken args env to_jwt)) = 200"
    using that getToken_tojwt [of tok' args env to_jwt] getToken_200 [of args env to_jwt]
    by blast
  have legacy_tok: "at_api_key tok' = env ''LIVEKIT_API_KEY''
        \<and> at_api_secret tok' = env ''LIVEKIT_API_SECRET''
        \<and> (\<exists>r p. room (at_grants tok') = Some (JStr r)
              \<and> at_identity tok' = JStr p \<and> at_name tok' = JStr p
              \<and> (map_of args ''room'' = None \<longrightarrow> r = ''my-room'')
              \<and> (map_of args ''participant'' = None \<longrightarrow> p = ''anonymous''))"
    if "ToJwt tok' \<in> set (snd (getToken args env to_jwt))"
    using getToken_tojwt [OF that] by (simp add: args_get_def)
  have legacy_checked: "args_get args ''room'' ''my-room'' \<noteq> []
        \<and> args_get args ''participant'' ''anonymous'' \<noteq> []"
    if chk: "\<forall>t. join_check_fails t \<longrightarrow> isl (to_jwt t)"
      and ok: "status (fst (getToken args env to_jwt)) = 200"
  proof -
    from getToken_200_signed [OF ok] obtain t jwt where
      ev: "ToJwt t \<in> set (snd (getToken args env to_jwt))" and sg: "to_jwt t = Inr jwt"
      by blast
    from sg chk have "\<not> join_check_fails t" by (auto simp: isl_def)
    with getToken_tojwt [OF ev] show ?thesis
      by (auto simp: join_check_fails_def VideoGrants_def Let_def)
  qed
  from post cred [of env] post_tok legacy legacy_tok legacy_checked show ?thesis by blast
qed

theorem token_needs_names_and_credentials_witness:
  "status (fst (generate_token (Inr (JObject body_ok)) env_ok sign_checked)) = 200
   \<and> status (fst (getToken [] env_ok sign_checked)) = 200
   \<and> (\<exists>d. (Inr (JObject body_ok) :: py_exception + json) = Inr (JObject d)
        \<and> truthy (dict_get d ''roomName'' JNull)
        \<and> truthy (dict_get d ''participantName'' JNull)
        \<and> dict_get d ''roomName'' JNull \<noteq> JStr []
        \<and> dict_get d ''participantName'' JNull \<noteq> JStr [])
   \<and> (\<exists>k s. env_ok ''LIVEKIT_API_KEY'' = Some k \<and> k \<noteq> []
            \<and> env_ok ''LIVEKIT_API_SECRET'' = Some s \<and> s \<noteq> [])
   \<and> args_get [] ''room'' ''my-room'' \<noteq> []
   \<and> args_get [] ''participant'' ''anonymous'' \<noteq> []"
proof -
  have a: "status (fst (generate_token (Inr (JObject body_ok)) env_ok sign_checked)) = 200"
    by (simp add: post_run_checked jsonify_def)
  have b: "status (fst (getToken [] env_ok sign_checked)) = 200"
    by (simp add: legacy_run_checked)
  have c: "\<forall>t. join_check_fails t \<longrightarrow> isl (sign_checked t)"
    by (simp add: sign_checked_def)
  from a b c token_needs_names_and_credentials
         [where gj = "Inr (JObject body_ok)" and env = env_ok and to_jwt = sign_checked
            and args = "[]"]
  show ?thesis by blast
qed

subsection \<open>Validation and configuration errors\<close>

text \<open>
  C2, as stated, fails on the empty object: its \<^verbatim>\<open>roomName\<close> is absent, and the answer is
  the message of the check \<^verbatim>\<open>if not data\<close>, not the one about the required fields.
\<close>

theorem empty_object_not_missing_fields:
  "map_of ([] :: (string \<times> json) list) ''roomName'' = None
   \<and> generate_token (Inr (JObject [])) env_ok sign_ok =
       (jsonify (error_body ''No JSON data provided'') 400, [])
   \<and> fst (generate_token (Inr (JObject [])) env_ok sign_ok) \<noteq>
       jsonify (error_body ''roomName and participantName are required'') 400"
  by (simp add: generate_token_falsy jsonify_error_eq)

text \<open>
  C2, amended. When the parsed body is a dict that is not empty and its \<^verbatim>\<open>roomName\<close> or
  \<^verbatim>\<open>participantName\<close> is absent or the empty string, the answer is 400 with
  \<^verbatim>\<open>{"error": "roomName and participantName are required"}\<close>; no environment variable has
  been read and \<^verbatim>\<open>to_jwt\<close> has not been called (the list of events is empty), and the
  answer is never the configuration error.
\<close>

theorem missing_field_400:
  assumes "d \<noteq> []"
      and "map_of d ''roomName'' = None \<or> map_of d ''roomName'' = Some (JStr [])
           \<or> map_of d ''participantName'' = None \<or> map_of d ''participantName'' = Some (JStr [])"
  shows "generate_token (Inr (JObject d)) env to_jwt =
           (jsonify (error_body ''roomName and participantName are required'') 400, [])
         \<and> fst (generate_token (Inr (JObject d)) env to_jwt) \<noteq>
             jsonify (error_body ''Server configuration error'') 500"
proof -
  from assms(2)
  have "\<not> truthy (dict_get d ''roomName'' JNull) \<or> \<not> truthy (dict_get d ''participantName'' JNull)"
    by (auto simp: dict_get_def)
  with assms(1)
  have "generate_token (Inr (JObject d)) env to_jwt =
          (jsonify (error_body ''roomName and participantName are required'') 400, [])"
    by (rule generate_token_invalid)
  then show ?thesis by (simp add: jsonify_error_eq)
qed

theorem missing_field_400_witness:
  "generate_token (Inr (JObject [(''roomName'', JStr ''''), (''participantName'', JStr ''bob'')]))
       env_no_secret sign_ok =
     (jsonify (error_body ''roomName and participantName are required'') 400, [])
   \<and> fst (generate_token (Inr (JObject [(''roomName'', JStr ''''), (''participantName'', JStr ''bob'')]))
       env_no_secret sign_ok) \<noteq>
       jsonify (error_body ''Server configuration error'') 500"
  by (rule missing_field_400) simp_all

text \<open>
  C3. When \<^verbatim>\<open>LIVEKIT_API_KEY\<close> or \<^verbatim>\<open>LIVEKIT_API_SECRET\<close> is unset or empty, POST /token with
  a non-empty \<^verbatim>\<open>roomName\<close> and \<^verbatim>\<open>participantName\<close>, and every GET /getToken, answer 500
  with \<^verbatim>\<open>{"error": "Server configuration error"}\<close>; the events are the reads of the
  environment (and the error line of \<^verbatim>\<open>generate_token\<close>), with no call of \<^verbatim>\<open>to_jwt\<close>.
\<close>

theorem missing_credentials_500:
  assumes "env ''LIVEKIT_API_KEY'' = None \<or> env ''LIVEKIT_API_KEY'' = Some []
           \<or> env ''LIVEKIT_API_SECRET'' = None \<or> env ''LIVEKIT_API_SECRET'' = Some []"
  shows "(map_of d ''roomName'' = Some (JStr r) \<and> r \<noteq> []
            \<and> map_of d ''participantName'' = Some (JStr p) \<and> p \<noteq> [] \<longrightarrow>
          generate_token (Inr (JObject d)) env to_jwt =
            (jsonify (error_body ''Server configuration error'') 500,
             [GetEnv ''LIVEKIT_API_KEY'', GetEnv ''LIVEKIT_API_SECRET'', GetEnv ''LIVEKIT_URL'',
              LogError ''Missing LIVEKIT_API_KEY or LIVEKIT_API_SECRET'']))
         \<and> getToken args env to_jwt =
            (jsonify (error_body ''Server configuration error'') 500,
             [GetEnv ''LIVEKIT_API_KEY'', GetEnv ''LIVEKIT_API_SECRET''])"
proof -
  from assms
  have nc: "\<not> str_truthy (env ''LIVEKIT_API_KEY'') \<or> \<not> str_truthy (env ''LIVEKIT_API_SECRET'')"
    by auto
  have "generate_token (Inr (JObject d)) env to_jwt =
            (jsonify (error_body ''Server configuration error'') 500,
             [GetEnv ''LIVEKIT_API_KEY'', GetEnv ''LIVEKIT_API_SECRET'', GetEnv ''LIVEKIT_URL'',
              LogError ''Missing LIVEKIT_API_KEY or LIVEKIT_API_SECRET''])"
    if v: "map_of d ''roomName'' = Some (JStr r)" "r \<noteq> []"
          "map_of d ''participantName'' = Some (JStr p)" "p \<noteq> []"
  proof (rule generate_token_no_credentials)
    show "truthy (dict_get d ''roomName'' JNull)" using v by (simp add: dict_get_def)
    show "truthy (dict_get d ''participantName'' JNull)" using v by (simp add: dict_get_def)
    show "\<not> str_truthy (env ''LIVEKIT_API_KEY'') \<or> \<not> str_truthy (env ''LIVEKIT_API_SECRET'')"
      by (rule nc)
    show "d \<noteq> []" using v by auto
  qed
  moreover note getToken_no_credentials [OF nc, of args to_jwt]
  ultimately show ?thesis by blast
qed

theorem missing_credentials_500_witness:
  "generate_token (Inr (JObject body_ok)) env_no_secret sign_ok =
     (jsonify (error_body ''Server configuration error'') 500,
      [GetEnv ''LIVEKIT_API_KEY'', GetEnv ''LIVEKIT_API_SECRET'', GetEnv ''LIVEKIT_URL'',
       LogError ''Missing LIVEKIT_API_KEY or LIVEKIT_API_SECRET''])
   \<and> getToken [] env_no_secret sign_ok =
     (jsonify (error_body ''Server configuration error'') 500,
      [GetEnv ''LIVEKIT_API_KEY'', GetEnv ''LIVEKIT_API_SECRET''])"
  using missing_credentials_500 [of env_no_secret body_ok "''test-room''" "''bob''" sign_ok "[]"]
  by (simp add: env_no_secret_get body_ok_get)

subsection \<open>The token and the response of POST /token\<close>

text \<open>
  C4. For a body with a non-empty \<^verbatim>\<open>roomName\<close> and \<^verbatim>\<open>participantName\<close>, on a configured
  server, \<^verbatim>\<open>to_jwt\<close> is called once, on a token whose display name is
  \<^verbatim>\<open>participantName\<close> and whose identity is \<^verbatim>\<open>participantName\<close> when
  \<^verbatim>\<open>participantIdentity\<close> is omitted and the supplied value otherwise; the request is
  answered with 200 whenever \<^verbatim>\<open>to_jwt\<close> returns.
\<close>

theorem identity_defaults_to_name:
  assumes "map_of d ''roomName'' = Some (JStr r)" and "r \<noteq> []"
      and "map_of d ''participantName'' = Some (JStr p)" and "p \<noteq> []"
      and "str_truthy (env ''LIVEKIT_API_KEY'')" and "str_truthy (env ''LIVEKIT_API_SECRET'')"
  shows "\<exists>tok. [ev \<leftarrow> snd (generate_token (Inr (JObject d)) env to_jwt). \<exists>t. ev = ToJwt t] = [ToJwt tok]
           \<and> at_name tok = JStr p
           \<and> at_identity tok =
               (case map_of d ''participantIdentity'' of None \<Rightarrow> JStr p | Some i \<Rightarrow> i)
           \<and> (\<forall>jwt. to_jwt tok = Inr jwt \<longrightarrow>
                 status (fst (generate_token (Inr (JObject d)) env to_jwt)) = 200)"
proof -
  have rn: "dict_get d ''roomName'' JNull = JStr r"
   and pn: "dict_get d ''participantName'' JNull = JStr p"
    using assms by (simp_all add: dict_get_def)
  have ne: "d \<noteq> []" using assms(1) by auto
  have run: "generate_token (Inr (JObject d)) env to_jwt = 
     (let tok = \<lparr>at_api_key = env ''LIVEKIT_API_KEY'',
                 at_api_secret = env ''LIVEKIT_API_SECRET'',
                 at_identity = dict_get d ''participantIdentity''
                                 (dict_get d ''participantName'' JNull),
                 at_name = dict_get d ''participantName'' JNull,
                 at_grants = \<lparr>room_join = Some True,
                              room = Some (dict_get d ''roomName'' JNull),
                              can_publish = Some True,
                              can_subscribe = Some True,
                              can_publish_data = Some True\<rparr>\<rparr>;
          evs = [GetEnv ''LIVEKIT_API_KEY'', GetEnv ''LIVEKIT_API_SECRET'',
                 GetEnv ''LIVEKIT_URL'', ToJwt tok]
      in case to_jwt tok of
           Inl e \<Rightarrow> (jsonify (error_body ''Internal server error'') 500,
                      evs @ [LogError (''Error generating token: '' @ exc_str e)])
         | Inr jwt \<Rightarrow>
             (jsonify (JObject [(''serverUrl'',
                                   JStr (getenv_default env ''LIVEKIT_URL'' ''ws://localhost:7880'')),
                                (''roomName'', dict_get d ''roomName'' JNull),
                                (''participantName'', dict_get d ''participantName'' JNull),
                                (''participantToken'', JStr jwt)]) 200,
              evs @ [LogInfo (dict_get d ''participantName'' JNull)
                             (dict_get d ''roomName'' JNull)]))"
    by (rule generate_token_valid) (simp_all add: rn pn assms ne)
  show ?thesis
    unfolding run rn pn Let_def
    by (simp add: dict_get_def jsonify_def split: sum.splits option.splits)
qed

theorem identity_defaults_to_name_witness:
  "\<exists>tok. [ev \<leftarrow> snd (generate_token (Inr (JObject body_ok)) env_ok sign_ok). \<exists>t. ev = ToJwt t] = [ToJwt tok]
       \<and> at_name tok = JStr ''bob''
       \<and> at_identity tok = JStr ''bob''
       \<and> status (fst (generate_token (Inr (JObject body_ok)) env_ok sign_ok)) = 200"
  using identity_defaults_to_name [of body_ok "''test-room''" "''bob''" env_ok sign_ok]
  by (simp add: body_ok_get env_ok_get sign_ok_def)

text \<open>
  C5. A POST /token request answered with 200 has a dict body with the fields
  \<^verbatim>\<open>roomName\<close> and \<^verbatim>\<open>participantName\<close>, and the response is the JSON object of exactly
  the four keys \<^verbatim>\<open>serverUrl\<close> (the value of \<^verbatim>\<open>LIVEKIT_URL\<close>, or
  \<^verbatim>\<open>ws://localhost:7880\<close> when it is unset), \<^verbatim>\<open>roomName\<close> and \<^verbatim>\<open>participantName\<close> (the
  request's values) and \<^verbatim>\<open>participantToken\<close> (what \<^verbatim>\<open>to_jwt\<close> returned); there is no key
  for the identity.
\<close>

theorem token_response_shape:
  assumes "status (fst (generate_token gj env to_jwt)) = 200"
  shows "\<exists>d rn pn tok jwt.
           gj = Inr (JObject d)
           \<and> map_of d ''roomName'' = Some rn
           \<and> map_of d ''participantName'' = Some pn
           \<and> ToJwt tok \<in> set (snd (generate_token gj env to_jwt))
           \<and> to_jwt tok = Inr jwt
           \<and> body (fst (generate_token gj env to_jwt)) =
               JsonBody (JObject
                 [(''serverUrl'', JStr (case env ''LIVEKIT_URL'' of
                                          None \<Rightarrow> ''ws://localhost:7880'' | Some u \<Rightarrow> u)),
                  (''roomName'', rn),
                  (''participantName'', pn),
                  (''participantToken'', JStr jwt)])"
proof -
  from generate_token_200 [OF assms] obtain d j where
    gj: "gj = Inr (JObject d)"
    and rn: "truthy (dict_get d ''roomName'' JNull)"
    and pn: "truthy (dict_get d ''participantName'' JNull)"
    and resp: "fst (generate_token gj env to_jwt) =
               jsonify (JObject [(''serverUrl'',
                                    JStr (getenv_default env ''LIVEKIT_URL'' ''ws://localhost:7880'')),
                                 (''roomName'', dict_get d ''roomName'' JNull),
                                 (''participantName'', dict_get d ''participantName'' JNull),
                                 (''participantToken'', JStr j)]) 200"
    by blast
  from generate_token_200_signed [OF assms] obtain tok jwt x y z where
    ev: "ToJwt tok \<in> set (snd (generate_token gj env to_jwt))" and sg: "to_jwt tok = Inr jwt"
    and b: "body (fst (generate_token gj env to_jwt)) =
                 JsonBody (JObject [x, y, z, (''participantToken'', JStr jwt)])"
    by blast
  from resp b have "j = jwt" by (simp add: jsonify_def)
  with resp have "body (fst (generate_token gj env to_jwt)) =
               JsonBody (JObject
                 [(''serverUrl'', JStr (case env ''LIVEKIT_URL'' of
                                          None \<Rightarrow> ''ws://localhost:7880'' | Some u \<Rightarrow> u)),
                  (''roomName'', dict_get d ''roomName'' JNull),
                  (''participantName'', dict_get d ''participantName'' JNull),
                  (''participantToken'', JStr jwt)])"
    by (simp add: jsonify_def getenv_default_def)
  with gj truthy_dict_get [OF rn] truthy_dict_get [OF pn] ev sg show ?thesis by blast
qed

theorem token_response_shape_witness:
  "status (fst (generate_token (Inr (JObject body_ok)) env_ok sign_ok)) = 200
   \<and> body (fst (generate_token (Inr (JObject body_ok)) env_ok sign_ok)) =
       JsonBody (JObject
         [(''serverUrl'', JStr ''ws://localhost:7880''),
          (''roomName'', JStr ''test-room''),
          (''participantName'', JStr ''bob''),
          (''participantToken'', JStr ''hdr.claims.sig'')])"
proof -
  have a: "status (fst (generate_token (Inr (JObject body_ok)) env_ok sign_ok)) = 200"
    by (simp add: generate_token_valid body_ok_get env_ok_get sign_ok_def jsonify_def Let_def)
  from token_response_shape [OF a] show ?thesis
    using a by (auto simp: body_ok_get env_ok_get sign_ok_def)
qed

subsection \<open>Grants\<close>

text \<open>
  C6, as stated, fails for the legacy endpoint: \<^verbatim>\<open>getToken\<close> does not pass the three
  flags to \<^verbatim>\<open>VideoGrants\<close>, and the fields then take the library's defaults, so the token
  issued for \<^verbatim>\<open>GET /getToken\<close> carries \<^verbatim>\<open>can_publish\<close>, \<^verbatim>\<open>can_subscribe\<close> and
  \<^verbatim>\<open>can_publish_data\<close>, all \<^verbatim>\<open>True\<close>, beside \<^verbatim>\<open>room_join\<close> and \<^verbatim>\<open>room\<close>.
\<close>

theorem legacy_token_carries_publish_grants:
  "ToJwt \<lparr>at_api_key = Some ''devkey'', at_api_secret = Some ''secret'',
          at_identity = JStr ''anonymous'', at_name = JStr ''anonymous'',
          at_grants = \<lparr>room_join = Some True, room = Some (JStr ''my-room''),
                       can_publish = None, can_subscribe = None, can_publish_data = None\<rparr>\<rparr>
     \<in> set (snd (getToken [] env_ok sign_checked))
   \<and> fst (getToken [] env_ok sign_checked) = \<lparr>status = 200, body = TextBody ''hdr.claims.sig''\<rparr>
   \<and> VideoGrants \<lparr>room_join = Some True, room = Some (JStr ''my-room''),
                   can_publish = None, can_subscribe = None, can_publish_data = None\<rparr> =
       \<lparr>f_room_join = Some True, f_room = JStr ''my-room'',
        f_can_publish = True, f_can_subscribe = True, f_can_publish_data = True\<rparr>"
  by (simp add: legacy_run_checked VideoGrants_def)

text \<open>
  C6, amended. Every token that \<^verbatim>\<open>generate_token\<close> hands to \<^verbatim>\<open>to_jwt\<close> is built with
  \<^verbatim>\<open>room_join=True\<close>, \<^verbatim>\<open>room=roomName\<close>, \<^verbatim>\<open>can_publish=True\<close>, \<^verbatim>\<open>can_subscribe=True\<close> and
  \<^verbatim>\<open>can_publish_data=True\<close> and carries these grants. Every token that \<^verbatim>\<open>getToken\<close> hands
  to \<^verbatim>\<open>to_jwt\<close> is built with \<^verbatim>\<open>room_join=True\<close> and \<^verbatim>\<open>room\<close> only, the three flags are not
  passed; they take the defaults of \<^verbatim>\<open>VideoGrants\<close>, so the token carries the same five
  grants as a token of POST /token for that room.
\<close>

theorem grants_passed_and_carried:
  "(ToJwt tok \<in> set (snd (generate_token gj env to_jwt)) \<longrightarrow>
      (\<exists>d rn. gj = Inr (JObject d) \<and> map_of d ''roomName'' = Some rn
         \<and> at_grants tok = \<lparr>room_join = Some True, room = Some rn,
                              can_publish = Some True, can_subscribe = Some True,
                              can_publish_data = Some True\<rparr>
         \<and> VideoGrants (at_grants tok) =
               \<lparr>f_room_join = Some True, f_room = rn,
                f_can_publish = True, f_can_subscribe = True, f_can_publish_data = True\<rparr>))
   \<and> (ToJwt tok' \<in> set (snd (getToken args env to_jwt)) \<longrightarrow>
        at_grants tok' =
          \<lparr>room_join = Some True,
           room = Some (JStr (case map_of args ''room'' of None \<Rightarrow> ''my-room'' | Some v \<Rightarrow> v)),
           can_publish = None, can_subscribe = None, can_publish_data = None\<rparr>
        \<and> VideoGrants (at_grants tok') =
            \<lparr>f_room_join = Some True,
             f_room = JStr (case map_of args ''room'' of None \<Rightarrow> ''my-room'' | Some v \<Rightarrow> v),
             f_can_publish = True, f_can_subscribe = True, f_can_publish_data = True\<rparr>)"
proof (rule conjI; rule impI)
  assume "ToJwt tok \<in> set (snd (generate_token gj env to_jwt))"
  from generate_token_tojwt [OF this] obtain d where
    d: "gj = Inr (JObject d)" "truthy (dict_get d ''roomName'' JNull)"
    "at_grants tok = \<lparr>room_join = Some True, room = Some (dict_get d ''roomName'' JNull),
                              can_publish = Some True, can_subscribe = Some True,
                              can_publish_data = Some True\<rparr>"
    by auto
  from d(3) have "VideoGrants (at_grants tok) =
               \<lparr>f_room_join = Some True, f_room = dict_get d ''roomName'' JNull,
                f_can_publish = True, f_can_subscribe = True, f_can_publish_data = True\<rparr>"
    by (simp add: VideoGrants_def)
  with d truthy_dict_get [of d "''roomName''"]
  show "\<exists>d rn. gj = Inr (JObject d) \<and> map_of d ''roomName'' = Some rn
         \<and> at_grants tok = \<lparr>room_join = Some True, room = Some rn,
                              can_publish = Some True, can_subscribe = Some True,
                              can_publish_data = Some True\<rparr>
         \<and> VideoGrants (at_grants tok) =
               \<lparr>f_room_join = Some True, f_room = rn,
                f_can_publish = True, f_can_subscribe = True, f_can_publish_data = True\<rparr>"
    by blast
next
  assume "ToJwt tok' \<in> set (snd (getToken args env to_jwt))"
  from getToken_tojwt [OF this]
  have g: "at_grants tok' =
          \<lparr>room_join = Some True,
           room = Some (JStr (case map_of args ''room'' of None \<Rightarrow> ''my-room'' | Some v \<Rightarrow> v)),
           can_publish = None, can_subscribe = None, can_publish_data = None\<rparr>"
    by (simp add: args_get_def)
  then show "at_grants tok' =
          \<lparr>room_join = Some True,
           room = Some (JStr (case map_of args ''room'' of None \<Rightarrow> ''my-room'' | Some v \<Rightarrow> v)),
           can_publish = None, can_subscribe = None, can_publish_data = None\<rparr>
        \<and> VideoGrants (at_grants tok') =
            \<lparr>f_room_join = Some True,
             f_room = JStr (case map_of args ''room'' of None \<Rightarrow> ''my-room'' | Some v \<Rightarrow> v),
             f_can_publish = True, f_can_subscribe = True, f_can_publish_data = True\<rparr>"
    by (simp add: VideoGrants_def)
qed

theorem grants_passed_and_carried_witness:
  "(\<exists>tok. ToJwt tok \<in> set (snd (generate_token (Inr (JObject body_ok)) env_ok sign_checked))
       \<and> at_grants tok = \<lparr>room_join = Some True, room = Some (JStr ''test-room''),
                           can_publish = Some True, can_subscribe = Some True,
                           can_publish_data = Some True\<rparr>
       \<and> VideoGrants (at_grants tok) =
            \<lparr>f_room_join = Some True, f_room = JStr ''test-room'',
             f_can_publish = True, f_can_subscribe = True, f_can_publish_data = True\<rparr>)
   \<and> (\<exists>tok. ToJwt tok \<in> set (snd (getToken [] env_ok sign_checked))
       \<and> at_grants tok = \<lparr>room_join = Some True, room = Some (JStr ''my-room''),
                           can_publish = None, can_subscribe = None,
                           can_publish_data = None\<rparr>
       \<and> VideoGrants (at_grants tok) =
            \<lparr>f_room_join = Some True, f_room = JStr ''my-room'',
             f_can_publish = True, f_can_subscribe = True, f_can_publish_data = True\<rparr>)"
proof -
  let ?t = "\<lparr>at_api_key = Some ''devkey'', at_api_secret = Some ''secret'',
             at_identity = JStr ''bob'', at_name = JStr ''bob'',
             at_grants = \<lparr>room_join = Some True, room = Some (JStr ''test-room''),
                          can_publish = Some True, can_subscribe = Some True,
                          can_publish_data = Some True\<rparr>\<rparr>"
  let ?t' = "\<lparr>at_api_key = Some ''devkey'', at_api_secret = Some ''secret'',
             at_identity = JStr ''anonymous'', at_name = JStr ''anonymous'',
             at_grants = \<lparr>room_join = Some True, room = Some (JStr ''my-room''),
                          can_publish = None, can_subscribe = None,
                          can_publish_data = None\<rparr>\<rparr>"
  have a: "ToJwt ?t \<in> set (snd (generate_token (Inr (JObject body_ok)) env_ok sign_checked))"
    by (simp add: post_run_checked)
  have b: "ToJwt ?t' \<in> set (snd (getToken [] env_ok sign_checked))"
    by (simp add: legacy_run_checked)
  from grants_passed_and_carried [of ?t "Inr (JObject body_ok)" env_ok sign_checked ?t' "[]"] a b
  have "(\<exists>d rn. (Inr (JObject body_ok) :: py_exception + json) = Inr (JObject d)
            \<and> map_of d ''roomName'' = Some rn
            \<and> VideoGrants (at_grants ?t) =
               \<lparr>f_room_join = Some True, f_room = rn,
                f_can_publish = True, f_can_subscribe = True, f_can_publish_data = True\<rparr>)
        \<and> VideoGrants (at_grants ?t') =
            \<lparr>f_room_join = Some True, f_room = JStr ''my-room'',
             f_can_publish = True, f_can_subscribe = True, f_can_publish_data = True\<rparr>"
    by simp
  then have "VideoGrants (at_grants ?t) =
               \<lparr>f_room_join = Some True, f_room = JStr ''test-room'',
                f_can_publish = True, f_can_subscribe = True, f_can_publish_data = True\<rparr>
        \<and> VideoGrants (at_grants ?t') =
            \<lparr>f_room_join = Some True, f_room = JStr ''my-room'',
             f_can_publish = True, f_can_subscribe = True, f_can_publish_data = True\<rparr>"
    by (auto simp: body_ok_get)
  with a b show ?thesis
    by (intro conjI exI [of _ ?t] exI [of _ ?t']) simp_all
qed

subsection \<open>Exceptions of the signing library\<close>



subsection \<open>The legacy endpoint\<close>

text \<open>
  C9. On a configured server \<^verbatim>\<open>getToken\<close> calls \<^verbatim>\<open>to_jwt\<close> on a token whose room is
  \<^verbatim>\<open>my-room\<close> when the query has no \<^verbatim>\<open>room\<close> and whose name and identity are
  \<^verbatim>\<open>anonymous\<close> when it has no \<^verbatim>\<open>participant\<close>; when \<^verbatim>\<open>to_jwt\<close> returns, the response has
  status 200 and its body is the returned string itself, not a JSON object, so it has the
  three segments of the JWT whenever the library's string has them.
\<close>

theorem legacy_defaults_and_raw_token:
  assumes "str_truthy (env ''LIVEKIT_API_KEY'')" and "str_truthy (env ''LIVEKIT_API_SECRET'')"
  shows "\<exists>tok. ToJwt tok \<in> set (snd (getToken args env to_jwt))
           \<and> (map_of args ''room'' = None \<longrightarrow> room (at_grants tok) = Some (JStr ''my-room''))
           \<and> (map_of args ''participant'' = None \<longrightarrow>
                 at_name tok = JStr ''anonymous'' \<and> at_identity tok = JStr ''anonymous'')
           \<and> (\<forall>jwt. to_jwt tok = Inr jwt \<longrightarrow>
                 fst (getToken args env to_jwt) = \<lparr>status = 200, body = TextBody jwt\<rparr>
                 \<and> (count_list jwt (CHR ''.'') = 2 \<longrightarrow>
                      (\<exists>s. body (fst (getToken args env to_jwt)) = TextBody s
                           \<and> count_list s (CHR ''.'') = 2)))"
  unfolding getToken_valid [OF assms] Let_def
  by (simp add: args_get_def text_response_def split: sum.splits)

theorem legacy_defaults_and_raw_token_witness:
  "\<exists>tok. ToJwt tok \<in> set (snd (getToken [] env_ok sign_ok))
       \<and> room (at_grants tok) = Some (JStr ''my-room'')
       \<and> at_name tok = JStr ''anonymous'' \<and> at_identity tok = JStr ''anonymous''
       \<and> fst (getToken [] env_ok sign_ok) = \<lparr>status = 200, body = TextBody ''hdr.claims.sig''\<rparr>"
  using legacy_defaults_and_raw_token [of env_ok "[]" sign_ok]
  by (auto simp: env_ok_get sign_ok_def)

end
